theory Spec2Isabelle
  imports Complex_Main
begin

section \<open>Python strings\<close>

text \<open>
  A Python \<open>str\<close> is modelled as a \<open>string\<close> whose characters are the code points
  0..255. The functions below are the builtin string operations the repository uses,
  restricted to that range.
\<close>

definition py_isspace :: "char \<Rightarrow> bool" where
  \<comment> \<open>\<open>str.isspace\<close> on one character: TAB..CR, FS..US, SPACE, NEL, NBSP.\<close>
  "py_isspace c =
     (let n = (of_char c :: nat)
      in (9 \<le> n \<and> n \<le> 13) \<or> (28 \<le> n \<and> n \<le> 32) \<or> n = 133 \<or> n = 160)"

definition strip :: "string \<Rightarrow> string" where
  \<comment> \<open>\<open>str.strip()\<close>: drop leading and trailing whitespace.\<close>
  "strip s = rev (dropWhile py_isspace (rev (dropWhile py_isspace s)))"

definition lower_char :: "char \<Rightarrow> char" where
  "lower_char c =
     (let n = (of_char c :: nat)
      in if (65 \<le> n \<and> n \<le> 90) \<or> (192 \<le> n \<and> n \<le> 222 \<and> n \<noteq> 215)
         then char_of (n + 32) else c)"

definition lower :: "string \<Rightarrow> string" where
  \<comment> \<open>\<open>str.lower()\<close>\<close>
  "lower s = map lower_char s"

fun startswith :: "string \<Rightarrow> string \<Rightarrow> bool" where
  \<comment> \<open>\<open>text.startswith(x)\<close>\<close>
  "startswith text [] = True"
| "startswith [] (c # x) = False"
| "startswith (d # text) (c # x) = (d = c \<and> startswith text x)"

fun str_in :: "string \<Rightarrow> string \<Rightarrow> bool" where
  \<comment> \<open>\<open>x in text\<close> for two strings: \<open>x\<close> occurs somewhere in \<open>text\<close>.\<close>
  "str_in x [] = (x = [])"
| "str_in x (c # text) = (startswith (c # text) x \<or> str_in x text)"

definition slice :: "string \<Rightarrow> nat \<Rightarrow> nat \<Rightarrow> string" where
  \<comment> \<open>\<open>text[i:j]\<close> for non-negative \<open>i\<close>, \<open>j\<close>\<close>
  "slice text i j = take (j - i) (drop i text)"

section \<open>utils/risk\_score.py\<close>

function finditer :: "string \<Rightarrow> string \<Rightarrow> nat \<Rightarrow> nat list" where
  \<comment> \<open>\<open>re.finditer(re.escape(keyword), text)\<close>: the start offsets of the successive
      non-overlapping matches of the literal \<open>keyword\<close>, scanning from offset \<open>pos\<close>.
      After an empty match the scan moves on by one character.\<close>
  "finditer keyword text pos =
     (if length text < pos + length keyword then []
      else if startswith (drop pos text) keyword
           then pos # finditer keyword text (pos + max 1 (length keyword))
           else finditer keyword text (pos + 1))"
  by pat_completeness auto
termination
  by (relation "measure (\<lambda>(keyword, text, pos). Suc (length text) - pos)") auto

declare finditer.simps [simp del]

definition negations :: "string list" where
  "negations = [''no '', ''not '', ''without '', ''absence of '']"

definition negated :: "string \<Rightarrow> nat \<Rightarrow> bool" where
  \<comment> \<open>The test of one match that starts at offset \<open>m\<close>:
      \<open>start = max(0, m - 25); prefix = text_lower[start:m];
       any(x in prefix for x in [...])\<close>\<close>
  "negated text_lower m =
     (let start = (if m < 25 then 0 else m - 25);
          prefix = slice text_lower start m
      in list_ex (\<lambda>x. str_in x prefix) negations)"

fun first_unnegated :: "string \<Rightarrow> nat list \<Rightarrow> bool" where
  \<comment> \<open>The \<open>for match in ...\<close> loop: \<open>continue\<close> on a negated match, \<open>return True\<close>
      on the first other one, \<open>return False\<close> when the matches run out.\<close>
  "first_unnegated text_lower [] = False"
| "first_unnegated text_lower (m # ms) =
     (if negated text_lower m then first_unnegated text_lower ms else True)"

definition contains_term :: "string \<Rightarrow> string \<Rightarrow> bool" where
  \<comment> \<open>\<open>_contains_term(text_lower, keyword)\<close>\<close>
  "contains_term text_lower keyword =
     (if text_lower = [] then False
      else first_unnegated text_lower (finditer keyword text_lower 0))"

definition high_risk_keywords :: "string list" where
  "high_risk_keywords =
     [''unlimited liability'', ''unlimited indemn'', ''perpetual'', ''irrevocable'',
      ''liquidated damages'', ''sole discretion'', ''waive'']"

definition medium_risk_keywords :: "string list" where
  "medium_risk_keywords =
     [''termination'', ''breach'', ''penalty'', ''interest'', ''indemnity'',
      ''confidential'', ''non-compete'', ''non solicitation'', ''assignment'',
      ''auto-renew'']"

definition protective_keywords :: "string list" where
  "protective_keywords =
     [''liability cap'', ''limited liability'', ''governing law'', ''arbitration'',
      ''notice period'', ''data protection'', ''encrypted'', ''backup'']"

fun apply_scoring :: "string \<Rightarrow> int \<Rightarrow> string list \<Rightarrow> int \<Rightarrow> int" where
  \<comment> \<open>One \<open>for word in keywords: if _contains_term(text_lower, word): score += delta\<close>
      loop.\<close>
  "apply_scoring text_lower delta [] score = score"
| "apply_scoring text_lower delta (word # ws) score =
     apply_scoring text_lower delta ws
       (if contains_term text_lower word then score + delta else score)"

definition score_with ::
  "string list \<Rightarrow> string list \<Rightarrow> string list \<Rightarrow> string \<Rightarrow> string \<times> int" where
  \<comment> \<open>The body of \<open>calculate_risk_score\<close> after the guard, with the three keyword lists
      as parameters.\<close>
  "score_with high medium protective contract_text =
     (let text_lower = lower contract_text;
          score = 35;
          score = apply_scoring text_lower 15 high score;
          score = apply_scoring text_lower 6 medium score;
          score = apply_scoring text_lower (- 5) protective score;
          score = max 5 (min score 100);
          level = (if score \<ge> 70 then ''High''
                   else if score \<ge> 40 then ''Medium'' else ''Low'')
      in (level, score))"

definition calculate_risk_score :: "string option \<Rightarrow> string \<times> int" where
  \<comment> \<open>\<open>calculate_risk_score(contract_text)\<close>; \<open>None\<close> is Python's \<open>None\<close>.\<close>
  "calculate_risk_score contract_text =
     (case contract_text of
        None \<Rightarrow> (''Low'', 25)
      | Some t \<Rightarrow>
          if t = [] then (''Low'', 25)
          else score_with high_risk_keywords medium_risk_keywords protective_keywords t)"

definition occurs_at :: "string \<Rightarrow> string \<Rightarrow> nat \<Rightarrow> bool" where
  \<comment> \<open>\<open>keyword\<close> occurs in \<open>text\<close> at offset \<open>i\<close>: \<open>text[i:i+len(keyword)] == keyword\<close>,
      overlapping occurrences included.\<close>
  "occurs_at text keyword i =
     (i + length keyword \<le> length text \<and> slice text i (i + length keyword) = keyword)"

definition scenario_text :: string where
  "scenario_text = ''This agreement includes unlimited liability and indemnity. Liquidated damages apply. Governing law is India.''"

definition scenario_lower :: string where
  "scenario_lower = ''this agreement includes unlimited liability and indemnity. liquidated damages apply. governing law is india.''"

fun scan :: "string \<Rightarrow> string \<Rightarrow> nat \<Rightarrow> nat list" where
  \<comment> \<open>A single pass over the rest of the text that yields the same offsets as
      \<open>finditer\<close> (lemma \<open>finditer_scan\<close>); used to evaluate \<open>contains_term\<close>.\<close>
  "scan keyword [] pos = (if keyword = [] then [pos] else [])"
| "scan keyword (c # cs) pos =
     (if startswith (c # cs) keyword
      then pos # scan keyword (drop (max 1 (length keyword) - 1) cs)
                   (pos + max 1 (length keyword))
      else scan keyword cs (pos + 1))"

section \<open>memory/memory.py\<close>

datatype error = ValueError string

record session =
  s_name :: string
  s_text :: string
  s_type :: string
  s_analyses :: "string \<rightharpoonup> string"
  s_final_report :: string
  s_created :: string

record contract_memory =
  sessions :: "string \<rightharpoonup> session"
  contract_hash_map :: "string \<rightharpoonup> string"

record clock =
  \<comment> \<open>What one call of \<open>create_session\<close> reads from outside the program:
      \<open>datetime.now().strftime('%Y%m%d_%H%M%S')\<close>, \<open>uuid.uuid4().hex\<close> and
      \<open>datetime.now().strftime("%d %b %Y %H:%M")\<close>.\<close>
  stamp :: string
  uuid4_hex :: string
  created_now :: string

definition init_memory :: contract_memory where
  \<comment> \<open>\<open>ContractMemory.__init__\<close>\<close>
  "init_memory = \<lparr>sessions = Map.empty, contract_hash_map = Map.empty\<rparr>"

definition py_or :: "string option \<Rightarrow> string \<Rightarrow> string" where
  \<comment> \<open>\<open>x or default\<close> for an optional string: \<open>None\<close> and \<open>""\<close> are falsy.\<close>
  "py_or x d = (case x of None \<Rightarrow> d | Some s \<Rightarrow> if s = [] then d else s)"

definition falsy :: "string option \<Rightarrow> bool" where
  \<comment> \<open>\<open>not x\<close> for an optional string\<close>
  "falsy x = (case x of None \<Rightarrow> True | Some s \<Rightarrow> s = [])"

definition hash_text :: "(string \<Rightarrow> string) \<Rightarrow> string \<Rightarrow> string" where
  \<comment> \<open>\<open>_hash(text)\<close>; the parameter \<open>md5\<close> stands for
      \<open>lambda s: hashlib.md5(s.encode()).hexdigest()\<close>.\<close>
  "hash_text md5 t = md5 (strip t)"

definition find_duplicate ::
  "(string \<Rightarrow> string) \<Rightarrow> contract_memory \<Rightarrow> string option \<Rightarrow> string option" where
  "find_duplicate md5 mem contract_text =
     (case contract_text of
        None \<Rightarrow> None
      | Some t \<Rightarrow> if t = [] then None else contract_hash_map mem (hash_text md5 t))"

definition new_session_id :: "clock \<Rightarrow> string" where
  \<comment> \<open>\<open>f"contract_{datetime.now().strftime('%Y%m%d_%H%M%S')}_{uuid.uuid4().hex[:4]}"\<close>\<close>
  "new_session_id clk = ''contract_'' @ stamp clk @ ''_'' @ take 4 (uuid4_hex clk)"

definition create_session ::
  "(string \<Rightarrow> string) \<Rightarrow> clock \<Rightarrow> contract_memory \<Rightarrow> string option \<Rightarrow> string option \<Rightarrow>
   string option \<Rightarrow> (error + string) \<times> contract_memory" where
  "create_session md5 clk mem contract_name contract_text contract_type =
     (case contract_text of
        None \<Rightarrow> (Inl (ValueError ''Empty contract text''), mem)
      | Some t \<Rightarrow>
          if t = [] then (Inl (ValueError ''Empty contract text''), mem)
          else
            let duplicate = find_duplicate md5 mem contract_text
            in if duplicate \<noteq> None \<and> duplicate \<noteq> Some []
               then (Inr (the duplicate), mem)
               else
                 let session_id = new_session_id clk;
                     new = \<lparr>s_name = py_or contract_name ''Untitled Contract'',
                            s_text = t,
                            s_type = py_or contract_type ''Unknown'',
                            s_analyses = Map.empty,
                            s_final_report = [],
                            s_created = created_now clk\<rparr>;
                     h = hash_text md5 t
                 in (Inr session_id,
                     mem\<lparr>sessions := (sessions mem)(session_id \<mapsto> new),
                         contract_hash_map := (contract_hash_map mem)(h \<mapsto> session_id)\<rparr>))"

definition store_analysis ::
  "contract_memory \<Rightarrow> string \<Rightarrow> string \<Rightarrow> string option \<Rightarrow> contract_memory" where
  "store_analysis mem session_id agent_name result =
     (case sessions mem session_id of
        None \<Rightarrow> mem
      | Some session \<Rightarrow>
          mem\<lparr>sessions := (sessions mem)(session_id \<mapsto>
                 session\<lparr>s_analyses := (s_analyses session)(agent_name \<mapsto> py_or result [])\<rparr>)\<rparr>)"

definition store_final_report ::
  "contract_memory \<Rightarrow> string \<Rightarrow> string option \<Rightarrow> contract_memory" where
  "store_final_report mem session_id report =
     (case sessions mem session_id of
        None \<Rightarrow> mem
      | Some session \<Rightarrow>
          mem\<lparr>sessions := (sessions mem)(session_id \<mapsto>
                 session\<lparr>s_final_report := py_or report []\<rparr>)\<rparr>)"

definition whitespace_only :: "string \<Rightarrow> bool" where
  "whitespace_only t = (t \<noteq> [] \<and> list_all py_isspace t)"

definition toy_md5 :: "string \<Rightarrow> string" where
  \<comment> \<open>A stand-in for the hash in the concrete examples, which do not depend on it.\<close>
  "toy_md5 s = ''#'' @ s"

definition clock_a :: clock where
  "clock_a = \<lparr>stamp = ''20260101_000000'', uuid4_hex = ''abcd0123'',
               created_now = ''01 Jan 2026 00:00''\<rparr>"

definition clock_b :: clock where
  "clock_b = \<lparr>stamp = ''20260101_000007'', uuid4_hex = ''ef459999'',
               created_now = ''01 Jan 2026 00:00''\<rparr>"

definition memory_after_blank :: contract_memory where
  \<comment> \<open>The store after \<open>create_session(None, " ", None)\<close> on a fresh
      \<open>ContractMemory\<close>.\<close>
  "memory_after_blank =
     snd (create_session toy_md5 clock_a init_memory None (Some '' '') None)"

section \<open>Exceptions\<close>

datatype exn =
    TimeoutError string   \<comment> \<open>\<open>concurrent.futures.TimeoutError\<close>\<close>
  | Exception string      \<comment> \<open>any other \<open>Exception\<close>, with its message\<close>
  | PoolValueError        \<comment> \<open>\<open>ThreadPoolExecutor\<close>: max\_workers must be greater than 0\<close>
  | OverflowError         \<comment> \<open>integer division result too large for a float\<close>

section \<open>agents/executor\_agent.py: risk calculation\<close>

datatype risk_value =
    Missing           \<comment> \<open>the clause has no \<open>"risk_score"\<close> key\<close>
  | IntLike int       \<comment> \<open>a value on which \<open>int()\<close> returns this integer\<close>
  | NotIntLike        \<comment> \<open>a value on which \<open>int()\<close> raises\<close>

datatype clause_item =
    NoGet             \<comment> \<open>an item without a \<open>get\<close> method: \<open>c.get\<close> raises\<close>
  | Dict risk_value   \<comment> \<open>a dict, seen through its \<open>"risk_score"\<close> entry\<close>

fun clause_score :: "clause_item \<Rightarrow> int option" where
  \<comment> \<open>\<open>int(c.get("risk_score", 50))\<close>; \<open>None\<close> when it raises\<close>
  "clause_score NoGet = None"
| "clause_score (Dict Missing) = Some 50"
| "clause_score (Dict (IntLike i)) = Some i"
| "clause_score (Dict NotIntLike) = None"

fun collect_scores :: "clause_item list \<Rightarrow> int list \<Rightarrow> int list" where
  \<comment> \<open>The loop \<open>for c in clauses: try: clause_scores.append(...) except: pass\<close>\<close>
  "collect_scores [] clause_scores = clause_scores"
| "collect_scores (c # cs) clause_scores =
     collect_scores cs
       (case clause_score c of None \<Rightarrow> clause_scores | Some v \<Rightarrow> clause_scores @ [v])"

definition py_int :: "rat \<Rightarrow> int" where
  \<comment> \<open>\<open>int(x)\<close> on a float: truncation toward zero\<close>
  "py_int x = (if 0 \<le> x then \<lfloor>x\<rfloor> else \<lceil>x\<rceil>)"

definition risk_label :: "int \<Rightarrow> string" where
  "risk_label base =
     (if base < 30 then ''Low'' else if base < 70 then ''Medium'' else ''High'')"

definition float_limit :: rat where
  \<comment> \<open>Halfway between the largest double and \<open>2 ** 1024\<close>: from here on a value
      rounds to \<open>2 ** 1024\<close>, which no double holds.\<close>
  "float_limit = 2 ^ 1024 - 2 ^ 970"

definition true_div_overflows :: "int \<Rightarrow> nat \<Rightarrow> bool" where
  \<comment> \<open>\<open>a / b\<close> on two ints gives the quotient rounded to the nearest double and raises
      \<open>OverflowError\<close> when that is \<open>2 ** 1024\<close> or more in absolute value, which is
      when the exact quotient reaches \<open>2 ** 1024 - 2 ** 970\<close>.\<close>
  "true_div_overflows a b = (float_limit \<le> \<bar>of_int a / of_nat b :: rat\<bar>)"

definition calculate_risk :: "clause_item list option \<Rightarrow> exn + string \<times> int" where
  \<comment> \<open>\<open>_calculate_risk(results)\<close>, as a function of \<open>results.get("clauses", [])\<close>
      (\<open>None\<close>: no such key). The division \<open>sum(clause_scores)/len(clause_scores)\<close>
      is outside the \<open>try\<close>, so its \<open>OverflowError\<close> leaves the function. Below
      that range the float arithmetic is exact rational arithmetic here.\<close>
  "calculate_risk clauses =
     (let base = 50;
          clause_scores =
            collect_scores (case clauses of None \<Rightarrow> [] | Some cs \<Rightarrow> cs) []
      in case (if clause_scores \<noteq> []
               then (if true_div_overflows (sum_list clause_scores) (length clause_scores)
                     then Inl OverflowError
                     else Inr (py_int ((of_int base
                                 + of_int (sum_list clause_scores) / of_nat (length clause_scores))
                                / 2)))
               else Inr base) of
           Inl e \<Rightarrow> Inl e
         | Inr base \<Rightarrow>
             (let base = max 0 (min 100 base)
              in Inr (risk_label base, base)))"

definition aggregate_spec :: "int list \<Rightarrow> int" where
  \<comment> \<open>The specification's formula for a non-empty list of clause scores:
      \<open>round((50 + mean(scores)) / 2)\<close> clamped to [0,100].\<close>
  "aggregate_spec scores =
     max 0 (min 100 (round ((50 + of_int (sum_list scores) / of_nat (length scores)) / 2 :: rat)))"

section \<open>utils/parallel\_runner.py\<close>

datatype pyval =
    PyStr string      \<comment> \<open>a \<open>str\<close>\<close>
  | PyObj string      \<comment> \<open>any other object, given by what \<open>str()\<close> returns on it\<close>

datatype 'a outcome = Returned 'a | Raised exn

type_synonym task = "unit \<Rightarrow> pyval outcome"




section \<open>agents/executor\_agent.py: the pipeline\<close>

fun agent_output :: "pyval outcome \<Rightarrow> string" where
  \<comment> \<open>\<open>outputs[name] = result if isinstance(result, str) else str(result)\<close>,
      and \<open>outputs[name] = ""\<close> in the handler\<close>
  "agent_output (Returned (PyStr s)) = s"
| "agent_output (Returned (PyObj repr)) = repr"
| "agent_output (Raised e) = []"

fun collect_outputs ::
  "(string \<times> task) list \<Rightarrow> (string \<rightharpoonup> string) \<Rightarrow> (string \<rightharpoonup> string)" where
  "collect_outputs [] outputs = outputs"
| "collect_outputs ((name, func) # completed) outputs =
     collect_outputs completed (outputs(name \<mapsto> agent_output (func ())))"

definition initial_outputs :: "string \<rightharpoonup> string" where
  "initial_outputs =
     [''legal'' \<mapsto> [], ''finance'' \<mapsto> [], ''compliance'' \<mapsto> [], ''operations'' \<mapsto> []]"

record collaborators =
  \<comment> \<open>The functions the executor calls, with what they do on each argument.\<close>
  classify_simple :: "string \<Rightarrow> string outcome"
  legal_agent :: "string \<Rightarrow> string \<Rightarrow> string \<Rightarrow> pyval outcome"
  finance_agent :: "string \<Rightarrow> string \<Rightarrow> string \<Rightarrow> pyval outcome"
  compliance_agent :: "string \<Rightarrow> string \<Rightarrow> string \<Rightarrow> pyval outcome"
  operations_agent :: "string \<Rightarrow> pyval outcome"
  extract_clauses :: "string \<Rightarrow> (string \<times> string) list outcome"
  analyze_clauses :: "(string \<times> string) list \<Rightarrow> clause_item list outcome"
  summary_agent :: "string \<Rightarrow> (string \<times> string) list \<Rightarrow> string \<Rightarrow> string \<Rightarrow> string outcome"
  as_completed :: "(string \<times> task) list \<Rightarrow> (string \<times> task) list"
  elapsed :: rat

definition agents ::
  "collaborators \<Rightarrow> string \<Rightarrow> string \<Rightarrow> string \<Rightarrow> (string \<times> task) list" where
  \<comment> \<open>The dict of the four lambdas in \<open>_run_parallel_agents\<close>\<close>
  "agents col contract_text contract_type user_focus =
     [(''legal'', \<lambda>_. legal_agent col contract_text contract_type user_focus),
      (''finance'', \<lambda>_. finance_agent col contract_text contract_type user_focus),
      (''compliance'', \<lambda>_. compliance_agent col contract_text contract_type user_focus),
      (''operations'', \<lambda>_. operations_agent col contract_text)]"

definition run_parallel_agents ::
  "collaborators \<Rightarrow> string \<Rightarrow> string \<Rightarrow> string \<Rightarrow> (string \<rightharpoonup> string)" where
  \<comment> \<open>\<open>_run_parallel_agents\<close>; the pool has four workers.\<close>
  "run_parallel_agents col contract_text contract_type user_focus =
     collect_outputs (as_completed col (agents col contract_text contract_type user_focus))
       initial_outputs"

datatype call = Classifier | Agents | ClauseExtraction | ClauseAnalysis | Summary

record results =
  status :: string
  contract_type :: string
  legal :: string
  finance :: string
  compliance :: string
  operations :: string
  clauses :: "clause_item list"
  final_report :: string
  risk_level :: string
  risk_score :: int
  execution_time :: rat
  errors :: "string list"

definition initial_results :: results where
  "initial_results =
     \<lparr>status = ''started'', contract_type = ''Other'', legal = [], finance = [],
      compliance = [], operations = [], clauses = [], final_report = [],
      risk_level = ''Medium'', risk_score = 50, execution_time = 0, errors = []\<rparr>"

definition update_outputs :: "results \<Rightarrow> (string \<rightharpoonup> string) \<Rightarrow> results" where
  \<comment> \<open>\<open>results.update(agent_outputs)\<close>, for the four keys the outputs can hold\<close>
  "update_outputs r outputs =
     (let r = (case outputs ''legal'' of None \<Rightarrow> r | Some v \<Rightarrow> r\<lparr>legal := v\<rparr>);
          r = (case outputs ''finance'' of None \<Rightarrow> r | Some v \<Rightarrow> r\<lparr>finance := v\<rparr>);
          r = (case outputs ''compliance'' of None \<Rightarrow> r | Some v \<Rightarrow> r\<lparr>compliance := v\<rparr>);
          r = (case outputs ''operations'' of None \<Rightarrow> r | Some v \<Rightarrow> r\<lparr>operations := v\<rparr>)
      in r)"

definition analysis_steps ::
  "collaborators \<Rightarrow> string \<Rightarrow> string \<Rightarrow> results \<Rightarrow> results \<times> call list \<times> exn option" where
  \<comment> \<open>The body of the \<open>try\<close> block: the results as far as they were filled in, the calls
      made, and the exception that ended the block, if any.\<close>
  "analysis_steps col safe_text user_focus r =
     (case classify_simple col safe_text of
        Raised e \<Rightarrow> (r, [Classifier], Some e)
      | Returned ct \<Rightarrow>
          let r = r\<lparr>contract_type := ct\<rparr>;
              r = update_outputs r (run_parallel_agents col safe_text ct user_focus)
          in (case extract_clauses col safe_text of
                Raised e \<Rightarrow> (r, [Classifier, Agents, ClauseExtraction], Some e)
              | Returned cl \<Rightarrow>
                  (case (if cl \<noteq> [] then analyze_clauses col cl else Returned (clauses r)) of
                     Raised e \<Rightarrow>
                       (r, [Classifier, Agents, ClauseExtraction, ClauseAnalysis], Some e)
                   | Returned analysed \<Rightarrow>
                       let r = r\<lparr>clauses := analysed\<rparr>;
                           calls = [Classifier, Agents, ClauseExtraction]
                                   @ (if cl \<noteq> [] then [ClauseAnalysis] else []);
                           agent_dict = [(''Legal'', legal r), (''Finance'', finance r),
                                         (''Compliance'', compliance r),
                                         (''Operations'', operations r)]
                       in (case summary_agent col safe_text agent_dict (contract_type r) user_focus of
                             Raised e \<Rightarrow> (r, calls @ [Summary], Some e)
                           | Returned report \<Rightarrow>
                               let r = r\<lparr>final_report := report\<rparr>
                               in (case calculate_risk (Some (clauses r)) of
                                     Inl e \<Rightarrow> (r, calls @ [Summary], Some e)
                                   | Inr (level, score) \<Rightarrow>
                                       let r = r\<lparr>risk_level := level, risk_score := score\<rparr>;
                                           r = r\<lparr>status := ''completed''\<rparr>
                                       in (r, calls @ [Summary], None))))))"

fun exn_message :: "exn \<Rightarrow> string" where
  \<comment> \<open>\<open>str(e)\<close>\<close>
  "exn_message (TimeoutError m) = m"
| "exn_message (Exception m) = m"
| "exn_message PoolValueError = ''max_workers must be greater than 0''"
| "exn_message OverflowError = ''integer division result too large for a float''"

definition execute_full_analysis ::
  "collaborators \<Rightarrow> string option \<Rightarrow> string \<Rightarrow> results \<times> call list" where
  \<comment> \<open>\<open>execute_full_analysis(contract_text, user_focus)\<close>: the result record and the
      collaborator calls made on the way.\<close>
  "execute_full_analysis col contract_text user_focus =
     (let safe_text = strip (case contract_text of None \<Rightarrow> [] | Some t \<Rightarrow> t);
          r = initial_results
      in if safe_text = []
         then (r\<lparr>status := ''failed'', errors := errors r @ [''No contract text provided'']\<rparr>, [])
         else
           let (r, calls, raised) = analysis_steps col safe_text user_focus r;
               r = (case raised of
                      None \<Rightarrow> r
                    | Some e \<Rightarrow> r\<lparr>status := ''failed'', errors := errors r @ [exn_message e]\<rparr>)
           in (r\<lparr>execution_time := elapsed col\<rparr>, calls))"

definition fine_task :: task where
  "fine_task = (\<lambda>_. Returned (PyStr ''fine''))"

definition failing_task :: task where
  "failing_task = (\<lambda>_. Raised (Exception ''boom''))"

definition four_tasks :: "(string \<times> task) list" where
  \<comment> \<open>Four agent tasks of which one raises\<close>
  "four_tasks =
     [(''legal'', fine_task), (''finance'', failing_task),
      (''compliance'', fine_task), (''operations'', fine_task)]"

definition demo_collaborators :: collaborators where
  \<comment> \<open>Collaborators whose finance agent raises, with the futures completing in reverse
      order of submission\<close>
  "demo_collaborators =
     \<lparr>classify_simple = (\<lambda>t. Returned ''NDA''),
      legal_agent = (\<lambda>t ct uf. Returned (PyStr ''fine'')),
      finance_agent = (\<lambda>t ct uf. Raised (Exception ''boom'')),
      compliance_agent = (\<lambda>t ct uf. Returned (PyStr ''fine'')),
      operations_agent = (\<lambda>t. Returned (PyStr ''fine'')),
      extract_clauses = (\<lambda>t. Returned []),
      analyze_clauses = (\<lambda>cl. Returned []),
      summary_agent = (\<lambda>t d ct uf. Returned ''report''),
      as_completed = rev,
      elapsed = 0\<rparr>"


section \<open>utils/hybrid\_llm.py\<close>

datatype json =
    JNull | JBool bool | JNum rat | JStr string | JArr "json list"
  | JObj "(string \<times> json) list"

datatype http_result =
    TransportError                     \<comment> \<open>\<open>requests.post\<close> raised\<close>
  | Response int string "json option"  \<comment> \<open>\<open>status_code\<close>, \<open>text\<close>, and \<open>json()\<close> unless it raises\<close>

record llm_env =
  \<comment> \<open>The key read from the environment and the two services, each by the response to
      a prompt.\<close>
  groq_api_key :: "string option"
  groq_post :: "string \<Rightarrow> http_result"
  ollama_post :: "string \<Rightarrow> http_result"

definition call_groq :: "llm_env \<Rightarrow> string \<Rightarrow> string option" where
  \<comment> \<open>\<open>call_groq(prompt)\<close>. Every exception inside the \<open>try\<close> (a missing key, an index
      out of range, a value of the wrong type) makes the function return \<open>None\<close>.\<close>
  "call_groq env prompt =
     (if falsy (groq_api_key env) then None
      else
        (case groq_post env prompt of
           TransportError \<Rightarrow> None
         | Response status_code body parsed \<Rightarrow>
             (if status_code \<noteq> 200 then None
              else
                (case parsed of
                   Some (JObj data) \<Rightarrow>
                     (case map_of data ''choices'' of
                        Some (JArr (JObj choice # rest)) \<Rightarrow>
                          (case map_of choice ''message'' of
                             Some (JObj message) \<Rightarrow>
                               (case map_of message ''content'' of
                                  Some (JStr content) \<Rightarrow> Some (strip content)
                                | _ \<Rightarrow> None)
                           | _ \<Rightarrow> None)
                      | _ \<Rightarrow> None)
                 | _ \<Rightarrow> None))))"

definition call_ollama :: "llm_env \<Rightarrow> string \<Rightarrow> string option" where
  \<comment> \<open>\<open>call_ollama(prompt)\<close>. The pause of 1.2 seconds between two local calls delays the
      call and does not change what it returns; it is left out.\<close>
  "call_ollama env prompt =
     (if prompt = [] then None
      else
        (case ollama_post env (take 2000 prompt) of
           TransportError \<Rightarrow> None
         | Response status_code body parsed \<Rightarrow>
             (if status_code \<noteq> 200 then None
              else
                (case parsed of
                   Some (JObj data) \<Rightarrow>
                     (case map_of data ''response'' of
                        None \<Rightarrow> Some (strip [])
                      | Some (JStr response) \<Rightarrow> Some (strip response)
                      | Some _ \<Rightarrow> None)
                 | _ \<Rightarrow> None))))"

definition accepted :: "string option \<Rightarrow> bool" where
  \<comment> \<open>\<open>response and len(response) > 5\<close>\<close>
  "accepted response =
     (case response of None \<Rightarrow> False | Some s \<Rightarrow> s \<noteq> [] \<and> 5 < length s)"

definition call_hybrid_llm :: "llm_env \<Rightarrow> string \<Rightarrow> string \<Rightarrow> string" where
  "call_hybrid_llm env prompt role =
     (if prompt = [] then ''No prompt provided''
      else
        let groq_response = call_groq env prompt
        in if accepted groq_response then the groq_response
           else
             let local_response = call_ollama env prompt
             in if accepted local_response then the local_response
                else if role \<in> set [''summary'', ''report'']
                     then ''Final report unavailable. Please retry.''
                     else ''Analysis unavailable. Please retry.'')"

section \<open>utils/history\_manager.py\<close>

record history_entry =
  h_name :: string
  h_date :: string
  h_risk :: string
  h_contract_type :: string
  h_report :: string
  h_agents :: json
  h_planner :: json
  h_text :: string

type_synonym history = "(string \<times> history_entry) list"

definition MAX_HISTORY :: nat where
  "MAX_HISTORY = 10"

fun dict_set :: "'k \<Rightarrow> 'v \<Rightarrow> ('k \<times> 'v) list \<Rightarrow> ('k \<times> 'v) list" where
  \<comment> \<open>\<open>d[k] = v\<close> on a dict, which keeps the order of insertion: an existing key keeps
      its place, a new key goes to the end.\<close>
  "dict_set k v [] = [(k, v)]"
| "dict_set k v ((k', v') # d) =
     (if k' = k then (k, v) # d else (k', v') # dict_set k v d)"

definition dict_del :: "'k \<Rightarrow> ('k \<times> 'v) list \<Rightarrow> ('k \<times> 'v) list" where
  \<comment> \<open>\<open>del d[k]\<close>\<close>
  "dict_del k d = filter (\<lambda>(k', v'). k' \<noteq> k) d"

definition load_history :: "history option \<Rightarrow> history" where
  \<comment> \<open>\<open>load_history()\<close> on the file's content (\<open>None\<close>: no file yet, \<open>_ensure\<close> writes
      \<open>{}\<close>)\<close>
  "load_history file = (case file of None \<Rightarrow> [] | Some h \<Rightarrow> h)"

definition save_contract ::
  "(string \<Rightarrow> string) \<Rightarrow> string \<Rightarrow> history option \<Rightarrow> string \<Rightarrow> string \<Rightarrow> string \<Rightarrow> string \<Rightarrow>
   string \<Rightarrow> json \<Rightarrow> json \<Rightarrow> history option" where
  \<comment> \<open>\<open>save_contract(...)\<close>: the file's content afterwards. \<open>md5\<close> stands for
      \<open>lambda s: hashlib.md5(s.encode()).hexdigest()\<close>, \<open>now\<close> for
      \<open>datetime.now().strftime("%d %b %Y %H:%M")\<close>. The first key is read only when the
      dict has more than ten entries, so \<open>list(history.keys())[0]\<close> cannot fail.\<close>
  "save_contract md5 now file cname ctext ctype risk report agts planner =
     (let history = load_history file;
          h = md5 ctext;
          history = dict_set h
                      \<lparr>h_name = cname, h_date = now, h_risk = risk, h_contract_type = ctype,
                       h_report = report, h_agents = agts, h_planner = planner,
                       h_text = ctext\<rparr> history;
          history = (if MAX_HISTORY < length history
                     then (case history of
                             [] \<Rightarrow> history
                           | (oldest, v) # rest \<Rightarrow> dict_del oldest history)
                     else history)
      in Some history)"

definition blank_entry :: history_entry where
  "blank_entry =
     \<lparr>h_name = ''old'', h_date = ''01 Jan 2026 00:00'', h_risk = ''Low'',
      h_contract_type = ''NDA'', h_report = [], h_agents = JNull, h_planner = JNull,
      h_text = ''old''\<rparr>"

definition ten_entries :: history where
  \<comment> \<open>A full history, oldest entry first\<close>
  "ten_entries =
     map (\<lambda>k. (k, blank_entry))
       [''k0'', ''k1'', ''k2'', ''k3'', ''k4'', ''k5'', ''k6'', ''k7'', ''k8'', ''k9'']"

definition lease_entry :: history_entry where
  "lease_entry =
     \<lparr>h_name = ''lease'', h_date = ''04 Nov 2026 10:00'', h_risk = ''High'',
      h_contract_type = ''Lease'', h_report = ''report'', h_agents = JNull,
      h_planner = JNull, h_text = ''text''\<rparr>"

section \<open>Facts about the string operations\<close>

lemma startswith_length: "startswith t x \<Longrightarrow> length x \<le> length t"
  by (induction t x rule: startswith.induct) auto

lemma startswith_take: "startswith t x \<Longrightarrow> take (length x) t = x"
  by (induction t x rule: startswith.induct) auto

lemma finditer_beyond:
  "length t < pos + length keyword \<Longrightarrow> finditer keyword t pos = []"
  by (subst finditer.simps) simp

lemma scan_short: "length s < length keyword \<Longrightarrow> scan keyword s pos = []"
proof (induction s arbitrary: pos)
  case Nil
  then show ?case by auto
next
  case (Cons c cs)
  then have "\<not> startswith (c # cs) keyword"
    using startswith_length by fastforce
  then show ?case using Cons by simp
qed

lemma finditer_scan:
  "pos \<le> length t \<Longrightarrow> finditer keyword t pos = scan keyword (drop pos t) pos"
proof (induction keyword t pos rule: finditer.induct)
  case (1 keyword t pos)
  show ?case
  proof (cases "length t < pos + length keyword")
    case True
    then have "length (drop pos t) < length keyword" using 1(3) by simp
    then show ?thesis using True by (simp add: finditer_beyond scan_short)
  next
    case fits: False
    show ?thesis
    proof (cases "drop pos t")
      case Nil
      then have p: "pos = length t" using 1(3) by simp
      with fits have k: "keyword = []" by simp
      have "finditer [] t (length t) = [length t]"
        by (subst finditer.simps) (simp add: finditer_beyond)
      then show ?thesis using Nil p k by simp
    next
      case (Cons c cs)
      then have lt: "pos < length t" by (metis drop_eq_Nil list.distinct(1) not_le)
      have cs: "cs = drop (Suc pos) t" using Cons by (metis drop_Suc tl_drop list.sel(3))
      show ?thesis
      proof (cases "startswith (c # cs) keyword")
        case True
        have b: "pos + max 1 (length keyword) \<le> length t"
          using fits lt by (simp add: max_def)
        have d: "drop (max 1 (length keyword) - 1) cs = drop (pos + max 1 (length keyword)) t"
          unfolding cs by (cases "length keyword") (simp_all add: max_def add.commute)
        have "finditer keyword t pos = pos # finditer keyword t (pos + max 1 (length keyword))"
          using True fits Cons by (subst finditer.simps) simp
        then show ?thesis
          using True 1(1)[OF fits _ b] Cons d by simp
      next
        case False
        have "finditer keyword t pos = finditer keyword t (pos + 1)"
          using False fits Cons by (subst finditer.simps) simp
        then show ?thesis
          using False 1(2)[OF fits] Cons lt cs by simp
      qed
    qed
  qed
qed

lemma contains_term_scan:
  "contains_term t keyword = (t \<noteq> [] \<and> first_unnegated t (scan keyword t 0))"
  by (simp add: contains_term_def finditer_scan)

lemma finditer_occurs: "m \<in> set (finditer keyword t pos) \<Longrightarrow> occurs_at t keyword m"
proof (induction keyword t pos rule: finditer.induct)
  case (1 keyword t pos)
  show ?case
  proof (cases "length t < pos + length keyword")
    case True
    then show ?thesis using 1(3) by (simp add: finditer_beyond)
  next
    case fits: False
    show ?thesis
    proof (cases "startswith (drop pos t) keyword")
      case True
      have "finditer keyword t pos = pos # finditer keyword t (pos + max 1 (length keyword))"
        using True fits by (subst finditer.simps) simp
      then have "m = pos \<or> m \<in> set (finditer keyword t (pos + max 1 (length keyword)))"
        using 1(3) by simp
      then show ?thesis
      proof
        assume "m = pos"
        then show ?thesis
          using fits startswith_take [OF True] by (simp add: occurs_at_def slice_def)
      next
        assume "m \<in> set (finditer keyword t (pos + max 1 (length keyword)))"
        then show ?thesis using 1(1) [OF fits True] by simp
      qed
    next
      case False
      have "finditer keyword t pos = finditer keyword t (pos + 1)"
        using False fits by (subst finditer.simps) simp
      then show ?thesis using 1(2) [OF fits False] 1(3) by simp
    qed
  qed
qed

lemma first_unnegated_iff:
  "first_unnegated t ms = (\<exists>m \<in> set ms. \<not> negated t m)"
  by (induction ms) auto

lemma apply_scoring_skip:
  "\<not> contains_term t k \<Longrightarrow>
   apply_scoring t delta (removeAll k ws) score = apply_scoring t delta ws score"
  by (induction ws arbitrary: score) auto

section \<open>The text-scan scorer on the scenario text\<close>

lemma lower_scenario: "lower scenario_text = scenario_lower"
  unfolding scenario_text_def scenario_lower_def by code_simp

lemmas term_eval = contains_term_scan negated_def slice_def negations_def

lemma scenario_high:
  "contains_term scenario_lower ''unlimited liability''"
  "\<not> contains_term scenario_lower ''unlimited indemn''"
  "\<not> contains_term scenario_lower ''perpetual''"
  "\<not> contains_term scenario_lower ''irrevocable''"
  "contains_term scenario_lower ''liquidated damages''"
  "\<not> contains_term scenario_lower ''sole discretion''"
  "\<not> contains_term scenario_lower ''waive''"
  unfolding scenario_lower_def by (simp_all add: term_eval)

lemma scenario_medium:
  "\<not> contains_term scenario_lower ''termination''"
  "\<not> contains_term scenario_lower ''breach''"
  "\<not> contains_term scenario_lower ''penalty''"
  "\<not> contains_term scenario_lower ''interest''"
  "contains_term scenario_lower ''indemnity''"
  "\<not> contains_term scenario_lower ''confidential''"
  "\<not> contains_term scenario_lower ''non-compete''"
  "\<not> contains_term scenario_lower ''non solicitation''"
  "\<not> contains_term scenario_lower ''assignment''"
  "\<not> contains_term scenario_lower ''auto-renew''"
  unfolding scenario_lower_def by (simp_all add: term_eval)

lemma scenario_protective:
  "\<not> contains_term scenario_lower ''liability cap''"
  "contains_term scenario_lower ''limited liability''"
  "contains_term scenario_lower ''governing law''"
  "\<not> contains_term scenario_lower ''arbitration''"
  "\<not> contains_term scenario_lower ''notice period''"
  "\<not> contains_term scenario_lower ''data protection''"
  "\<not> contains_term scenario_lower ''encrypted''"
  "\<not> contains_term scenario_lower ''backup''"
  unfolding scenario_lower_def by (simp_all add: term_eval)

lemma scenario_nonempty: "scenario_text \<noteq> []"
  by (simp add: scenario_text_def)

lemma scenario_after_high: "apply_scoring scenario_lower 15 high_risk_keywords 35 = 65"
  by (simp add: high_risk_keywords_def scenario_high)

lemma scenario_after_medium: "apply_scoring scenario_lower 6 medium_risk_keywords 65 = 71"
  by (simp add: medium_risk_keywords_def scenario_medium)

lemma scenario_after_protective:
  "apply_scoring scenario_lower (- 5) protective_keywords 71 = 61"
  by (simp add: protective_keywords_def scenario_protective)

lemma scenario_score: "calculate_risk_score (Some scenario_text) = (''Medium'', 61)"
  by (simp add: calculate_risk_score_def scenario_nonempty score_with_def lower_scenario
        scenario_after_high scenario_after_medium scenario_after_protective)

text \<open>
  Claim C3, as amended. On the scenario text the text-scan scorer returns the score 61
  and the level "Medium": base 35, plus 15 each for "unlimited liability" and
  "liquidated damages", plus 6 for "indemnity", minus 5 each for "governing law" and
  for "limited liability", which occurs inside "unlimited liability".
\<close>

theorem C3_scenario_is_medium_61:
  "calculate_risk_score (Some scenario_text) = (''Medium'', 61)"
  by (rule scenario_score)

text \<open>The claim as stated (score at least 70 and level "High") fails on that text.\<close>

theorem C3_counterexample:
  "\<not> (70 \<le> snd (calculate_risk_score (Some scenario_text))
      \<and> fst (calculate_risk_score (Some scenario_text)) = ''High'')"
  by (simp add: scenario_score)

section \<open>Negation-aware keyword detection\<close>

text \<open>
  Claim C7. If every occurrence of a keyword in the text has one of "no ", "not ",
  "without ", "absence of " among the 25 characters before it, then
  \<open>_contains_term\<close> returns False for that keyword, and the keyword contributes
  nothing to \<open>calculate_risk_score\<close>: the result is the one computed with the keyword
  struck from the three keyword lists. This holds for every keyword, those of the
  scoring lists in particular.
\<close>

theorem C7_negated_occurrences_not_counted:
  assumes "\<forall>i. occurs_at t k i \<longrightarrow> negated t i"
  shows "\<not> contains_term t k \<and>
         (\<forall>c. c \<noteq> [] \<and> lower c = t \<longrightarrow>
            calculate_risk_score (Some c) =
              score_with (removeAll k high_risk_keywords) (removeAll k medium_risk_keywords)
                (removeAll k protective_keywords) c)"
proof -
  have absent: "\<not> contains_term t k"
    using assms finditer_occurs [of _ k t 0]
    by (auto simp: contains_term_def first_unnegated_iff)
  then show ?thesis
    by (simp add: calculate_risk_score_def score_with_def apply_scoring_skip)
qed

lemma no_waive_occurrences:
  "\<forall>i. occurs_at ''no waive'' ''waive'' i \<longrightarrow> negated ''no waive'' i"
proof (intro allI impI)
  fix i
  assume occ: "occurs_at ''no waive'' ''waive'' i"
  then have "i \<le> 3" by (simp add: occurs_at_def)
  then consider "i = 0" | "i = 1" | "i = 2" | "i = 3" by linarith
  then show "negated ''no waive'' i"
  proof cases
    case 1 with occ show ?thesis by (simp add: occurs_at_def slice_def)
  next
    case 2 with occ show ?thesis by (simp add: occurs_at_def slice_def)
  next
    case 3 with occ show ?thesis by (simp add: occurs_at_def slice_def)
  next
    case 4 then show ?thesis by (simp add: negated_def slice_def negations_def)
  qed
qed

lemma lower_No_Waive: "lower ''No Waive'' = ''no waive''"
  by code_simp

lemma no_waive_after_high:
  "apply_scoring ''no waive'' 15 (removeAll ''waive'' high_risk_keywords) 35 = 35"
  by (simp add: high_risk_keywords_def term_eval)

lemma no_waive_after_medium:
  "apply_scoring ''no waive'' 6 (removeAll ''waive'' medium_risk_keywords) 35 = 35"
  by (simp add: medium_risk_keywords_def term_eval)

lemma no_waive_after_protective:
  "apply_scoring ''no waive'' (- 5) (removeAll ''waive'' protective_keywords) 35 = 35"
  by (simp add: protective_keywords_def term_eval)

lemma no_waive_without_keyword:
  "score_with (removeAll ''waive'' high_risk_keywords)
     (removeAll ''waive'' medium_risk_keywords)
     (removeAll ''waive'' protective_keywords) ''No Waive'' = (''Low'', 35)"
  by (simp add: score_with_def lower_No_Waive no_waive_after_high no_waive_after_medium
        no_waive_after_protective)

theorem C7_witness:
  "\<not> contains_term ''no waive'' ''waive''
   \<and> calculate_risk_score (Some ''No Waive'') = (''Low'', 35)"
  using C7_negated_occurrences_not_counted [OF no_waive_occurrences]
    lower_No_Waive no_waive_without_keyword
  by simp

section \<open>Session memory\<close>

lemma strip_whitespace_only: "list_all py_isspace t \<Longrightarrow> strip t = []"
proof -
  assume "list_all py_isspace t"
  then have d: "dropWhile py_isspace t = []" by (simp add: list_all_iff)
  show ?thesis unfolding strip_def d by simp
qed

lemma new_session_id_nonempty: "new_session_id clk \<noteq> []"
  by (simp add: new_session_id_def)

lemma isspace_blank: "py_isspace CHR '' ''"
  by (simp add: py_isspace_def)

lemma not_isspace_letters: "\<not> py_isspace CHR ''a''" "\<not> py_isspace CHR ''c''"
  by (simp_all add: py_isspace_def)

lemma strip_examples: "strip ''abc'' = ''abc''" "strip '' abc '' = ''abc''" "strip '' '' = []"
  by (simp_all add: strip_def isspace_blank not_isspace_letters)

text \<open>
  Claim C9. For a session identifier that is not in the store, \<open>store_analysis\<close> and
  \<open>store_final_report\<close> return (they are total) and leave the whole memory state, the
  sessions and the contract-hash map, as it was.
\<close>

theorem C9_unknown_session_is_noop:
  "sessions mem session_id = None \<Longrightarrow>
     store_analysis mem session_id agent_name result = mem
   \<and> store_final_report mem session_id report = mem"
  by (simp add: store_analysis_def store_final_report_def)

theorem C9_witness:
  "sessions init_memory ''contract_x'' = None
   \<and> store_analysis init_memory ''contract_x'' ''legal'' (Some ''fine'') = init_memory
   \<and> store_final_report init_memory ''contract_x'' (Some ''report'') = init_memory"
  using C9_unknown_session_is_noop
    [of init_memory "''contract_x''" "''legal''" "Some ''fine''" "Some ''report''"]
  by (simp add: init_memory_def)

text \<open>
  Claim C4, as amended. For two non-empty contract texts that are identical after
  stripping leading and trailing whitespace, two successive calls of
  \<open>create_session\<close> return the same session identifier, and the second call
  leaves the store as the first call left it (no new session record), whatever the
  names, types, clock readings and initial store.
\<close>

theorem C4_same_text_same_session:
  assumes "t1 \<noteq> []" and "t2 \<noteq> []" and "strip t1 = strip t2"
  shows "\<exists>sid. create_session md5 clk1 mem n1 (Some t1) ty1
                 = (Inr sid, snd (create_session md5 clk1 mem n1 (Some t1) ty1))
             \<and> create_session md5 clk2 (snd (create_session md5 clk1 mem n1 (Some t1) ty1))
                   n2 (Some t2) ty2
                 = (Inr sid, snd (create_session md5 clk1 mem n1 (Some t1) ty1))"
  using assms
  by (auto simp: create_session_def find_duplicate_def hash_text_def Let_def
        new_session_id_nonempty split: if_splits)

theorem C4_witness:
  "''abc'' \<noteq> [] \<and> '' abc '' \<noteq> [] \<and> strip ''abc'' = strip '' abc ''
   \<and> (\<exists>sid. fst (create_session toy_md5 clock_a init_memory None (Some ''abc'') None) = Inr sid
          \<and> fst (create_session toy_md5 clock_b
                   (snd (create_session toy_md5 clock_a init_memory None (Some ''abc'') None))
                   None (Some '' abc '') None) = Inr sid)"
proof -
  have eq: "strip ''abc'' = strip '' abc ''" by (simp add: strip_examples)
  have "\<exists>sid. create_session toy_md5 clock_a init_memory None (Some ''abc'') None
                 = (Inr sid, snd (create_session toy_md5 clock_a init_memory None (Some ''abc'') None))
             \<and> create_session toy_md5 clock_b
                   (snd (create_session toy_md5 clock_a init_memory None (Some ''abc'') None))
                   None (Some '' abc '') None
                 = (Inr sid, snd (create_session toy_md5 clock_a init_memory None (Some ''abc'') None))"
    by (rule C4_same_text_same_session [OF _ _ eq]) simp_all
  then show ?thesis using eq by (metis fst_conv list.distinct(1))
qed

text \<open>
  The claim as stated covers every text; on the empty text the call raises
  \<open>ValueError\<close> and returns no session identifier.
\<close>

theorem C4_counterexample:
  "create_session toy_md5 clock_a init_memory (Some ''name'') (Some []) (Some ''NDA'')
   = (Inl (ValueError ''Empty contract text''), init_memory)"
  by (simp add: create_session_def)

text \<open>
  Claim C10, as amended. \<open>create_session\<close> raises \<open>ValueError\<close> exactly when the
  contract text is falsy (\<open>None\<close> or the empty string), and then the store is
  unchanged. A whitespace-only text does not raise; its duplicate-detection hash is the
  hash of the empty string: if a session is already registered under that hash its
  identifier is returned and the store is unchanged, otherwise a new session holding the
  text is created and registered under that hash.
\<close>

theorem C10_create_session_errors:
  "((\<exists>e. fst (create_session md5 clk mem n ct ty) = Inl e) \<longleftrightarrow> falsy ct)
   \<and> (falsy ct \<longrightarrow> snd (create_session md5 clk mem n ct ty) = mem)
   \<and> (whitespace_only t \<longrightarrow>
        create_session md5 clk mem n (Some t) ty =
          (if contract_hash_map mem (md5 []) = None \<or> contract_hash_map mem (md5 []) = Some []
           then (Inr (new_session_id clk),
                 mem\<lparr>sessions := (sessions mem)(new_session_id clk \<mapsto>
                        \<lparr>s_name = py_or n ''Untitled Contract'', s_text = t,
                         s_type = py_or ty ''Unknown'', s_analyses = Map.empty,
                         s_final_report = [], s_created = created_now clk\<rparr>),
                     contract_hash_map := (contract_hash_map mem)(md5 [] \<mapsto> new_session_id clk)\<rparr>)
           else (Inr (the (contract_hash_map mem (md5 []))), mem)))"
proof (intro conjI impI)
  show "(\<exists>e. fst (create_session md5 clk mem n ct ty) = Inl e) \<longleftrightarrow> falsy ct"
    by (auto simp: create_session_def falsy_def Let_def split: option.splits)
  show "snd (create_session md5 clk mem n ct ty) = mem" if "falsy ct"
    using that by (auto simp: create_session_def falsy_def split: option.splits)
  assume "whitespace_only t"
  then have "t \<noteq> []" and "strip t = []"
    by (simp_all add: whitespace_only_def strip_whitespace_only)
  then show "create_session md5 clk mem n (Some t) ty =
          (if contract_hash_map mem (md5 []) = None \<or> contract_hash_map mem (md5 []) = Some []
           then (Inr (new_session_id clk),
                 mem\<lparr>sessions := (sessions mem)(new_session_id clk \<mapsto>
                        \<lparr>s_name = py_or n ''Untitled Contract'', s_text = t,
                         s_type = py_or ty ''Unknown'', s_analyses = Map.empty,
                         s_final_report = [], s_created = created_now clk\<rparr>),
                     contract_hash_map := (contract_hash_map mem)(md5 [] \<mapsto> new_session_id clk)\<rparr>)
           else (Inr (the (contract_hash_map mem (md5 []))), mem))"
    by (auto simp: create_session_def find_duplicate_def hash_text_def Let_def)
qed

lemma blank_whitespace_only: "whitespace_only '' ''"
  by (simp add: whitespace_only_def isspace_blank)

lemma memory_after_blank_eq:
  "memory_after_blank =
     \<lparr>sessions = [''contract_20260101_000000_abcd'' \<mapsto>
         \<lparr>s_name = ''Untitled Contract'', s_text = '' '', s_type = ''Unknown'',
          s_analyses = Map.empty, s_final_report = [],
          s_created = ''01 Jan 2026 00:00''\<rparr>],
      contract_hash_map = [''#'' \<mapsto> ''contract_20260101_000000_abcd'']\<rparr>"
  by (simp add: memory_after_blank_def create_session_def find_duplicate_def hash_text_def
        strip_examples init_memory_def toy_md5_def new_session_id_def clock_a_def py_or_def
        Let_def)

theorem C10_witness:
  "falsy (Some []) \<and> whitespace_only '' ''
   \<and> fst (create_session toy_md5 clock_a init_memory None (Some []) None)
       = Inl (ValueError ''Empty contract text'')
   \<and> snd (create_session toy_md5 clock_a init_memory None (Some []) None) = init_memory
   \<and> fst (create_session toy_md5 clock_a init_memory None (Some '' '') None)
       = Inr ''contract_20260101_000000_abcd''"
  using C10_create_session_errors [of toy_md5 clock_a init_memory None "Some []" None "'' ''"]
    C10_create_session_errors [of toy_md5 clock_a init_memory None "Some '' ''" None "'' ''"]
  by (auto simp: blank_whitespace_only falsy_def init_memory_def new_session_id_def
        clock_a_def create_session_def)

text \<open>
  The claim as stated has every whitespace-only text create a session. Once a session
  is registered under the hash of the empty string, a whitespace-only text creates
  none: the call returns the registered identifier and the store is unchanged.
\<close>

theorem C10_counterexample:
  "whitespace_only '' ''
   \<and> create_session toy_md5 clock_b memory_after_blank None (Some '' '') None
       = (Inr ''contract_20260101_000000_abcd'', memory_after_blank)"
  by (simp add: blank_whitespace_only memory_after_blank_eq create_session_def
        find_duplicate_def hash_text_def strip_examples toy_md5_def)

section \<open>Risk aggregation\<close>

lemma collect_scores_eq:
  "collect_scores cs acc = acc @ List.map_filter clause_score cs"
  by (induction cs arbitrary: acc) (auto split: option.splits)

lemma py_int_half: "py_int (103 / 2) = 51"
  by (simp add: py_int_def floor_eq_iff)

lemma sign_quotient: "(0 :: rat) < b \<Longrightarrow> (0 \<le> a / b) = (0 \<le> a)"
  by (simp add: zero_le_divide_iff)

lemma py_int_quotient:
  assumes "0 < n"
  shows "py_int ((50 + of_int s / of_int n) / 2) =
           (if 0 \<le> 50 * n + s then (50 * n + s) div (2 * n)
            else - ((- (50 * n + s)) div (2 * n)))"
proof -
  define a where "a = 50 * n + s"
  define b where "b = 2 * n"
  have b: "(0 :: rat) < of_int b" using assms by (simp add: b_def)
  have n: "(of_int n :: rat) \<noteq> 0" using assms by simp
  have q: "(50 + of_int s / of_int n) / 2 = (of_int a / of_int b :: rat)"
    using n by (simp add: a_def b_def field_simps)
  have sign: "(0 \<le> (of_int a / of_int b :: rat)) = (0 \<le> a)"
    using sign_quotient [OF b, of "of_int a"] by (simp only: of_int_0_le_iff)
  have fl: "\<lfloor>of_int a / of_int b :: rat\<rfloor> = a div b"
    by (rule floor_divide_of_int_eq)
  have "- (of_int a / of_int b :: rat) = of_int (- a) / of_int b"
    by simp
  then have ce: "\<lceil>of_int a / of_int b :: rat\<rceil> = - ((- a) div b)"
    unfolding ceiling_def by (simp only: floor_divide_of_int_eq)
  show ?thesis
    unfolding q py_int_def sign fl ce by (simp only: a_def b_def)
qed

lemma py_int_mean:
  assumes "xs \<noteq> []"
  shows "py_int ((of_int 50 + of_int (sum_list xs) / of_nat (length xs)) / 2) =
           (if 0 \<le> 50 * int (length xs) + sum_list xs
            then (50 * int (length xs) + sum_list xs) div (2 * int (length xs))
            else - ((- (50 * int (length xs) + sum_list xs)) div (2 * int (length xs))))"
proof -
  have pos: "0 < int (length xs)" using assms by simp
  have "(of_nat (length xs) :: rat) = of_int (int (length xs))" by simp
  then have "py_int ((of_int 50 + of_int (sum_list xs) / of_nat (length xs)) / 2)
        = py_int ((50 + of_int (sum_list xs) / of_int (int (length xs))) / 2)"
    by (simp only: of_int_numeral)
  then show ?thesis by (simp only: py_int_quotient [OF pos])
qed

lemma float_limit_large: "10 ^ 300 < float_limit" "float_limit < 10 ^ 400"
  by (simp_all add: float_limit_def)

lemma no_overflow_53: "\<not> true_div_overflows 53 (Suc 0)"
  using float_limit_large(1) by (simp add: true_div_overflows_def)

lemma overflow_huge: "calculate_risk (Some [Dict (IntLike (10 ^ 400))]) = Inl OverflowError"
  using float_limit_large(2) by (simp add: calculate_risk_def true_div_overflows_def)


text \<open>
  Claim C1, as amended. Let the clause scores be the values \<open>int(c.get("risk_score", 50))\<close>
  of the clauses on which that expression does not raise (a clause dict without a
  \<open>risk_score\<close> key counts as 50), \<open>n\<close> their number and \<open>s\<close> their sum. If there is
  none, \<open>_calculate_risk\<close> returns the base score 50 with the level "Medium". If the
  mean \<open>s / n\<close> is too large for a float (\<open>2 ** 1024 - 2 ** 970\<close> or more in absolute
  value) the call raises \<open>OverflowError\<close>. Otherwise it returns the score
  \<open>(50 + s / n) / 2\<close> truncated toward zero (not rounded), that is the quotient of
  \<open>50 * n + s\<close> by \<open>2 * n\<close> taken toward zero, clamped to [0,100], with the level "Low"
  below 30, "Medium" below 70 and "High" otherwise.
\<close>

theorem C1_truncated_mean:
  "calculate_risk cl =
     (let scores = List.map_filter clause_score (case cl of None \<Rightarrow> [] | Some cs \<Rightarrow> cs);
          n = int (length scores);
          s = sum_list scores
      in if scores = [] then Inr (''Medium'', 50)
         else if float_limit \<le> \<bar>of_int s / of_int n\<bar> then Inl OverflowError
         else
           let truncated = (if 0 \<le> 50 * n + s then (50 * n + s) div (2 * n)
                            else - ((- (50 * n + s)) div (2 * n)));
               score = max 0 (min 100 truncated)
           in Inr (if score < 30 then ''Low'' else if score < 70 then ''Medium'' else ''High'',
                   score))"
proof -
  define scores where
    "scores = List.map_filter clause_score (case cl of None \<Rightarrow> [] | Some cs \<Rightarrow> cs)"
  have collected: "collect_scores (case cl of None \<Rightarrow> [] | Some cs \<Rightarrow> cs) [] = scores"
    by (simp add: collect_scores_eq scores_def)
  have unfolded: "calculate_risk cl =
     (case (if scores \<noteq> []
            then (if true_div_overflows (sum_list scores) (length scores)
                  then Inl OverflowError
                  else Inr (py_int ((of_int 50
                              + of_int (sum_list scores) / of_nat (length scores)) / 2)))
            else Inr 50) of
        Inl e \<Rightarrow> Inl e
      | Inr base \<Rightarrow> Inr (risk_label (max 0 (min 100 base)), max 0 (min 100 base)))"
    by (simp only: calculate_risk_def Let_def collected)
  show ?thesis
  proof (cases "scores = []")
    case True
    then show ?thesis
      unfolding unfolded scores_def [symmetric] by (simp add: risk_label_def)
  next
    case ne: False
    show ?thesis
    proof (cases "true_div_overflows (sum_list scores) (length scores)")
      case True
      then show ?thesis
        unfolding unfolded scores_def [symmetric] using ne
        by (simp add: true_div_overflows_def)
    next
      case False
      then show ?thesis
        unfolding unfolded scores_def [symmetric] py_int_mean [OF ne] using ne
        by (simp add: true_div_overflows_def risk_label_def Let_def)
    qed
  qed
qed

text \<open>
  The claim as stated has the score rounded. For one clause with \<open>risk_score\<close> 53 the
  code returns \<open>int(51.5) = 51\<close>, the stated formula gives 52.
\<close>

theorem C1_counterexample:
  "calculate_risk (Some [Dict (IntLike 53)]) = Inr (''Medium'', 51)
   \<and> aggregate_spec [53] = 52"
  by (simp add: calculate_risk_def aggregate_spec_def py_int_half round_def no_overflow_53
        risk_label_def)

section \<open>The executor on missing input\<close>

text \<open>
  Claim C6. If the contract text is \<open>None\<close>, empty or whitespace only,
  \<open>execute_full_analysis\<close> returns the initial result record with \<open>status\<close> "failed" and
  the one error "No contract text provided" (every other field at its default, the
  execution time included), and no collaborator (classifier, agents, clause analyzer,
  summary agent, and through them the gateway) is called.
\<close>

theorem C6_no_text_fails_without_calls:
  assumes "contract_text = None \<or> (\<exists>t. contract_text = Some t \<and> list_all py_isspace t)"
  shows "execute_full_analysis col contract_text user_focus =
           (initial_results\<lparr>status := ''failed'', errors := [''No contract text provided'']\<rparr>, [])
         \<and> status (fst (execute_full_analysis col contract_text user_focus)) = ''failed''
         \<and> errors (fst (execute_full_analysis col contract_text user_focus)) \<noteq> []"
proof -
  have "strip (case contract_text of None \<Rightarrow> [] | Some t \<Rightarrow> t) = []"
    using assms by (auto simp: strip_whitespace_only)
  then show ?thesis
    by (simp add: execute_full_analysis_def initial_results_def)
qed


section \<open>Isolation of task failures\<close>








lemma four_tasks_distinct: "distinct (map fst four_tasks)"
  by (simp add: four_tasks_def)

lemma four_tasks_rev: "set (rev four_tasks) = set four_tasks"
  by (rule set_rev)

lemmas four_tasks_facts = four_tasks_distinct four_tasks_rev




theorem C6_witness:
  "(Some '' '' = (None :: string option) \<or> (\<exists>t. Some '' '' = Some t \<and> list_all py_isspace t))
   \<and> execute_full_analysis demo_collaborators (Some '' '') ''focus''
       = (initial_results\<lparr>status := ''failed'', errors := [''No contract text provided'']\<rparr>, [])"
  using C6_no_text_fails_without_calls [of "Some '' ''" demo_collaborators "''focus''"]
  by (simp add: isspace_blank)

section \<open>The gateway\<close>

lemma accepted_the: "accepted r \<Longrightarrow> r = Some (the r) \<and> 5 < length (the r)"
  by (cases r) (simp_all add: accepted_def)

text \<open>
  Claim C2. For every prompt, role, API key and behaviour of the two services,
  \<open>call_hybrid_llm\<close> returns (every exception of the provider calls is caught inside
  them and turned into \<open>None\<close>) a non-empty string: a provider response longer than 5
  characters, or one of the three static strings.
\<close>

theorem C2_gateway_total_nonempty:
  "call_hybrid_llm env prompt role \<noteq> []
   \<and> ((5 < length (call_hybrid_llm env prompt role)
        \<and> (call_groq env prompt = Some (call_hybrid_llm env prompt role)
            \<or> call_ollama env prompt = Some (call_hybrid_llm env prompt role)))
       \<or> call_hybrid_llm env prompt role = ''No prompt provided''
       \<or> call_hybrid_llm env prompt role = ''Final report unavailable. Please retry.''
       \<or> call_hybrid_llm env prompt role = ''Analysis unavailable. Please retry.'')"
proof (cases "prompt = []")
  case True
  then show ?thesis by (simp add: call_hybrid_llm_def)
next
  case prompt: False
  show ?thesis
  proof (cases "accepted (call_groq env prompt)")
    case True
    then have "call_hybrid_llm env prompt role = the (call_groq env prompt)"
      using prompt by (simp add: call_hybrid_llm_def)
    then show ?thesis using accepted_the [OF True] by auto
  next
    case groq: False
    show ?thesis
    proof (cases "accepted (call_ollama env prompt)")
      case True
      then have "call_hybrid_llm env prompt role = the (call_ollama env prompt)"
        using prompt groq by (simp add: call_hybrid_llm_def)
      then show ?thesis using accepted_the [OF True] by auto
    next
      case False
      then show ?thesis using prompt groq by (simp add: call_hybrid_llm_def)
    qed
  qed
qed

section \<open>The bounded history\<close>

lemma dict_set_new: "k \<notin> fst ` set d \<Longrightarrow> dict_set k v d = d @ [(k, v)]"
  by (induction d) auto

lemma dict_set_keys: "k \<in> fst ` set d \<Longrightarrow> map fst (dict_set k v d) = map fst d"
proof (induction d)
  case Nil
  then show ?case by simp
next
  case (Cons x d)
  obtain k' v' where x: "x = (k', v')" by (cases x)
  show ?case
  proof (cases "k' = k")
    case True
    then show ?thesis using x by simp
  next
    case False
    then have "k \<in> fst ` set d" using Cons.prems x by auto
    then have "map fst (dict_set k v d) = map fst d" by (rule Cons.IH)
    then show ?thesis using False x by simp
  qed
qed

lemma dict_del_first:
  "distinct (map fst ((k, v) # d)) \<Longrightarrow> dict_del k ((k, v) # d) = d"
  by (auto simp: dict_del_def filter_id_conv rev_image_eqI)

text \<open>
  Claim C8. Let the history file hold a dict of at most 10 entries (distinct keys, in
  order of insertion), or not exist yet. After \<open>save_contract\<close> it holds at most 10
  entries. If the contract's hash is already a key, or there are fewer than 10 entries,
  nothing is evicted: the file holds the old dict with the entry set. Otherwise (10
  entries and a new key) the first-inserted entry is evicted: the file holds the other
  nine in their order, followed by the new entry.
\<close>

theorem C8_history_bounded:
  assumes "distinct (map fst h)" and "length h \<le> 10"
    and "file = None \<and> h = [] \<or> file = Some h"
    and "e = \<lparr>h_name = cname, h_date = now, h_risk = risk, h_contract_type = ctype,
              h_report = report, h_agents = agts, h_planner = planner, h_text = ctext\<rparr>"
  shows "\<exists>h'. save_contract md5 now file cname ctext ctype risk report agts planner = Some h'
            \<and> length h' \<le> 10 \<and> distinct (map fst h')
            \<and> h' = (if md5 ctext \<in> fst ` set h \<or> length h < 10
                     then dict_set (md5 ctext) e h
                     else tl h @ [(md5 ctext, e)])"
proof -
  have load: "load_history file = h" using assms(3) by (auto simp: load_history_def)
  show ?thesis
  proof (cases "md5 ctext \<in> fst ` set h")
    case True
    have keys: "map fst (dict_set (md5 ctext) e h) = map fst h"
      using True by (rule dict_set_keys)
    then have "length (dict_set (md5 ctext) e h) = length h"
      by (metis length_map)
    then show ?thesis
      using True keys assms(1,2) load
      by (simp add: save_contract_def MAX_HISTORY_def assms(4) [symmetric])
  next
    case new: False
    have app: "dict_set (md5 ctext) e h = h @ [(md5 ctext, e)]"
      using new by (rule dict_set_new)
    have dist: "distinct (map fst (h @ [(md5 ctext, e)]))"
      using new assms(1) by simp
    show ?thesis
    proof (cases "length h < 10")
      case True
      then show ?thesis
        using new app dist load
        by (simp add: save_contract_def MAX_HISTORY_def assms(4) [symmetric])
    next
      case False
      then have len: "length h = 10" using assms(2) by simp
      then obtain k v d where h: "h = (k, v) # d" by (cases h) auto
      have "dict_del k (((k, v) # d) @ [(md5 ctext, e)]) = d @ [(md5 ctext, e)]"
        using dist h dict_del_first [of k v "d @ [(md5 ctext, e)]"] by simp
      then show ?thesis
        using new app dist load len h False
        by (simp add: save_contract_def MAX_HISTORY_def assms(4) [symmetric])
    qed
  qed
qed

lemma ten_entries_facts:
  "distinct (map fst ten_entries)" "length ten_entries \<le> 10"
  "toy_md5 ''text'' \<notin> fst ` set ten_entries" "\<not> length ten_entries < 10"
  by (simp_all add: ten_entries_def toy_md5_def)

theorem C8_witness:
  "distinct (map fst ten_entries) \<and> length ten_entries \<le> 10
   \<and> save_contract toy_md5 ''04 Nov 2026 10:00'' (Some ten_entries) ''lease'' ''text''
        ''Lease'' ''High'' ''report'' JNull JNull
       = Some (tl ten_entries @ [(''#text'', lease_entry)])
   \<and> length (tl ten_entries @ [(''#text'', lease_entry)]) \<le> 10"
proof -
  have stored: "Some ten_entries = None \<and> ten_entries = [] \<or> Some ten_entries = Some ten_entries"
    by simp
  have entry: "lease_entry =
      \<lparr>h_name = ''lease'', h_date = ''04 Nov 2026 10:00'', h_risk = ''High'',
       h_contract_type = ''Lease'', h_report = ''report'', h_agents = JNull,
       h_planner = JNull, h_text = ''text''\<rparr>"
    by (simp add: lease_entry_def)
  from C8_history_bounded [OF ten_entries_facts(1) ten_entries_facts(2) stored entry, of toy_md5]
  obtain h' where
    h': "save_contract toy_md5 ''04 Nov 2026 10:00'' (Some ten_entries) ''lease'' ''text''
           ''Lease'' ''High'' ''report'' JNull JNull = Some h'
         \<and> length h' \<le> 10 \<and> distinct (map fst h')
         \<and> h' = (if toy_md5 ''text'' \<in> fst ` set ten_entries \<or> length ten_entries < 10
                  then dict_set (toy_md5 ''text'') lease_entry ten_entries
                  else tl ten_entries @ [(toy_md5 ''text'', lease_entry)])" ..
  then have eq: "h' = tl ten_entries @ [(''#text'', lease_entry)]"
    using ten_entries_facts(3,4) by (simp add: toy_md5_def)
  note saved = h' [THEN conjunct1] and bound = h' [THEN conjunct2, THEN conjunct1]
  show ?thesis
    using saved bound unfolding eq
    by (intro conjI ten_entries_facts(1) ten_entries_facts(2))
qed

end
